theory Spec2Isabelle
  imports Main "HOL-Library.Word"
begin

section \<open>Convergent replicated data types of \<^verbatim>\<open>include/crdt/crdt.hpp\<close>\<close>

subsection \<open>Grow-only counter (\<^verbatim>\<open>crdt::gcounter<Nodes, T>\<close>)\<close>

text \<open>
  The class template has one data member, \<^verbatim>\<open>std::array<T, Nodes> _payload\<close>. The slot type
  is the template's default, \<^verbatim>\<open>uint32_t\<close>: a 32-bit word whose arithmetic wraps around. The
  array is a list; the template parameter \<^verbatim>\<open>Nodes\<close> (the class constant \<^verbatim>\<open>size\<close>) is an
  explicit argument of every operation, and an object of \<^verbatim>\<open>gcounter<Nodes>\<close> is a list of
  length \<^verbatim>\<open>Nodes\<close>.
\<close>

type_synonym uint32_t = "32 word"

type_synonym gcounter = "uint32_t list"

text \<open>\<^verbatim>\<open>std::max(a, b)\<close> is \<^verbatim>\<open>(a < b) ? b : a\<close>.\<close>

definition std_max :: "uint32_t \<Rightarrow> uint32_t \<Rightarrow> uint32_t" where
  "std_max a b = (if a < b then b else a)"

text \<open>
  \<^verbatim>\<open>void increment(size_type index) noexcept { if (index < size) { _payload[index] += 1; } }\<close>
  The function returns nothing and cannot throw; outside the guard it does nothing.
\<close>

definition gcounter_increment :: "nat \<Rightarrow> nat \<Rightarrow> gcounter \<Rightarrow> gcounter" where
  "gcounter_increment Nodes index p =
     (if index < Nodes then p[index := p ! index + 1] else p)"

text \<open>\<^verbatim>\<open>std::accumulate(_payload.begin(), _payload.end(), value_type(0))\<close>: a left fold
  of \<^verbatim>\<open>+\<close> in the slot type, starting from 0.\<close>

definition gcounter_value :: "gcounter \<Rightarrow> uint32_t" where
  "gcounter_value p = foldl (+) 0 p"

text \<open>
  \<^verbatim>\<open>for (i = 0; i < size; ++i) _payload[i] = std::max(_payload[i], other._payload[i]);\<close>
  The loop runs over the indices \<open>0, \<dots>, Nodes - 1\<close> and updates the receiver in place.
\<close>

definition gcounter_merge :: "nat \<Rightarrow> gcounter \<Rightarrow> gcounter \<Rightarrow> gcounter" where
  "gcounter_merge Nodes p other =
     fold (\<lambda>i acc. acc[i := std_max (acc ! i) (other ! i)]) [0..<Nodes] p"

text \<open>
  \<^verbatim>\<open>bool is_less_than_or_equals = false;\<close>
  \<^verbatim>\<open>for (i = 0; i < size; ++i) is_less_than_or_equals &= (_payload[i] <= other._payload[i]);\<close>
  \<^verbatim>\<open>return is_less_than_or_equals;\<close>
  The accumulator starts at \<^verbatim>\<open>false\<close>, as in the source.
\<close>

definition gcounter_le :: "nat \<Rightarrow> gcounter \<Rightarrow> gcounter \<Rightarrow> bool" where
  "gcounter_le Nodes p other =
     fold (\<lambda>i is_less_than_or_equals. is_less_than_or_equals \<and> p ! i \<le> other ! i)
       [0..<Nodes] False"

text \<open>
  The class declares no constructor and \<^verbatim>\<open>_payload\<close> has no initialiser. A value-initialised
  object (\<^verbatim>\<open>gcounter<Nodes>{}\<close>, or one of static storage duration) has every slot zero;
  this is that state.
\<close>

definition gcounter_zero :: "nat \<Rightarrow> gcounter" where
  "gcounter_zero Nodes = replicate Nodes 0"

text \<open>
  What a caller of \<^verbatim>\<open>increment\<close> observes. The only failure a counter operation could
  report is an index outside the configured size; \<^verbatim>\<open>increment\<close> is declared
  \<^verbatim>\<open>void ... noexcept\<close>, so every call completes normally (\<open>Inr\<close>) and hands back the
  receiver as the body left it.
\<close>

datatype error = InvalidIndex

definition gcounter_increment_call :: "nat \<Rightarrow> nat \<Rightarrow> gcounter \<Rightarrow> error + gcounter" where
  "gcounter_increment_call Nodes index p = Inr (gcounter_increment Nodes index p)"

text \<open>The objects of \<^verbatim>\<open>gcounter<Nodes>\<close>: arrays of exactly \<^verbatim>\<open>Nodes\<close> slots.\<close>

definition gcounter_shape :: "nat \<Rightarrow> gcounter \<Rightarrow> bool" where
  "gcounter_shape Nodes p = (length p = Nodes)"

subsection \<open>Positive-negative counter (\<^verbatim>\<open>crdt::pncounter<Nodes, T>\<close>)\<close>

text \<open>Two grow-only counters of the same size, \<^verbatim>\<open>_increment_counter\<close> and
  \<^verbatim>\<open>_decrement_counter\<close>.\<close>

record pncounter =
  increment_counter :: gcounter
  decrement_counter :: gcounter

text \<open>\<^verbatim>\<open>if (index < size) { _increment_counter.increment(index); }\<close>\<close>

definition pncounter_increment :: "nat \<Rightarrow> nat \<Rightarrow> pncounter \<Rightarrow> pncounter" where
  "pncounter_increment Nodes index c =
     (if index < Nodes
      then c\<lparr>increment_counter := gcounter_increment Nodes index (increment_counter c)\<rparr>
      else c)"

text \<open>\<^verbatim>\<open>if (index < size) { _decrement_counter.increment(index); }\<close>\<close>

definition pncounter_decrement :: "nat \<Rightarrow> nat \<Rightarrow> pncounter \<Rightarrow> pncounter" where
  "pncounter_decrement Nodes index c =
     (if index < Nodes
      then c\<lparr>decrement_counter := gcounter_increment Nodes index (decrement_counter c)\<rparr>
      else c)"

text \<open>
  \<^verbatim>\<open>gcounter\<close> declares \<^verbatim>\<open>increment\<close>, \<^verbatim>\<open>value\<close>, \<^verbatim>\<open>merge\<close>, \<^verbatim>\<open>operator<=\<close> and the constant
  \<^verbatim>\<open>size\<close>; its array \<^verbatim>\<open>_payload\<close> is protected. It has no member \<^verbatim>\<open>begin\<close> and no member
  \<^verbatim>\<open>end\<close>: looking either name up in a \<^verbatim>\<open>gcounter\<close> finds nothing (\<open>None\<close>). An iterator,
  where there is one, is a position in the array.
\<close>

definition gcounter_begin :: "gcounter \<Rightarrow> nat option" where
  "gcounter_begin p = None"

definition gcounter_end :: "gcounter \<Rightarrow> nat option" where
  "gcounter_end p = None"

text \<open>\<^verbatim>\<open>std::accumulate(first, last, value_type(0))\<close> over the slots from position
  \<open>first_it\<close> up to position \<open>last_it\<close>.\<close>

definition std_accumulate :: "gcounter \<Rightarrow> nat \<Rightarrow> nat \<Rightarrow> uint32_t" where
  "std_accumulate p first_it last_it = foldl (+) 0 (take (last_it - first_it) (drop first_it p))"

text \<open>
  \<^verbatim>\<open>value_type value() const {\<close>
  \<^verbatim>\<open>  return std::accumulate(_increment_counter.begin(), _increment_counter.end(), value_type(0)) -\<close>
  \<^verbatim>\<open>         std::accumulate(_decrement_counter.begin(), _decrement_counter.end(), value_type(0)); }\<close>
  The body asks the two inner counters for \<^verbatim>\<open>begin()\<close> and \<^verbatim>\<open>end()\<close>, which they do not
  have: the member cannot be instantiated and no call of it yields a value (\<open>None\<close>). Had
  the ranges existed, the result would be the difference of the two sums in the unsigned
  slot type.
\<close>

definition pncounter_value :: "pncounter \<Rightarrow> uint32_t option" where
  "pncounter_value c =
     (case (gcounter_begin (increment_counter c), gcounter_end (increment_counter c),
            gcounter_begin (decrement_counter c), gcounter_end (decrement_counter c)) of
        (Some first1, Some last1, Some first2, Some last2) \<Rightarrow>
          Some (std_accumulate (increment_counter c) first1 last1 -
                std_accumulate (decrement_counter c) first2 last2)
      | _ \<Rightarrow> None)"

text \<open>\<^verbatim>\<open>_increment_counter.merge(other._increment_counter);\<close>
  \<^verbatim>\<open>_decrement_counter.merge(other._decrement_counter);\<close>\<close>

definition pncounter_merge :: "nat \<Rightarrow> pncounter \<Rightarrow> pncounter \<Rightarrow> pncounter" where
  "pncounter_merge Nodes c other =
     c\<lparr>increment_counter := gcounter_merge Nodes (increment_counter c) (increment_counter other),
       decrement_counter := gcounter_merge Nodes (decrement_counter c) (decrement_counter other)\<rparr>"

text \<open>A value-initialised \<^verbatim>\<open>pncounter<Nodes>\<close>: both inner counters all zero.\<close>

definition pncounter_zero :: "nat \<Rightarrow> pncounter" where
  "pncounter_zero Nodes =
     \<lparr>increment_counter = gcounter_zero Nodes, decrement_counter = gcounter_zero Nodes\<rparr>"

definition pncounter_shape :: "nat \<Rightarrow> pncounter \<Rightarrow> bool" where
  "pncounter_shape Nodes c =
     (gcounter_shape Nodes (increment_counter c) \<and> gcounter_shape Nodes (decrement_counter c))"

subsection \<open>Grow-only set (\<^verbatim>\<open>crdt::grow_only_set<T, SetType>\<close>)\<close>

text \<open>
  The one data member is \<^verbatim>\<open>SetType _data\<close>, by default a \<^verbatim>\<open>std::unordered_set<T>\<close>. The
  container is the list of its elements in iteration order, without duplicates. Where a
  new element lands in that order is not fixed by the language standard; the model puts
  it last, and no statement below depends on that choice except through \<^verbatim>\<open>std::includes\<close>,
  which reads the ranges in iteration order.
\<close>

type_synonym 'a grow_only_set = "'a list"

text \<open>The default constructor: \<^verbatim>\<open>grow_only_set() : _data({}) {}\<close>.\<close>

definition grow_only_set_empty :: "'a grow_only_set" where
  "grow_only_set_empty = []"

text \<open>\<^verbatim>\<open>emplace\<close> of a set container: the element is inserted unless an equal one is
  already there.\<close>

definition emplace :: "'a \<Rightarrow> 'a list \<Rightarrow> 'a list" where
  "emplace elem d = (if elem \<in> set d then d else d @ [elem])"

text \<open>
  \<^verbatim>\<open>void add(T&& _elem) { _data.emplace(std::forward<T>(_elem)); }\<close>
  \<^verbatim>\<open>T\<close> is the parameter of the class, so \<^verbatim>\<open>T&&\<close> is an rvalue reference: \<^verbatim>\<open>add\<close> can be
  called with an rvalue and with nothing else. \<open>grow_only_set_add\<close> is the call with an
  rvalue.
\<close>

datatype value_category = Rvalue | Const_lvalue

definition binds_to_rvalue_reference :: "value_category \<Rightarrow> bool" where
  "binds_to_rvalue_reference v = (v = Rvalue)"

definition grow_only_set_add :: "'a \<Rightarrow> 'a grow_only_set \<Rightarrow> 'a grow_only_set" where
  "grow_only_set_add elem d = emplace elem d"

text \<open>
  \<^verbatim>\<open>const iterator& begin() const { return _data.cbegin(); }\<close>
  \<^verbatim>\<open>const iterator& end() const { return _data.cend(); }\<close>
  Both return a reference, and what it refers to is the temporary iterator that
  \<^verbatim>\<open>cbegin()\<close> or \<^verbatim>\<open>cend()\<close> made, which is gone when the function returns: the caller is
  handed no iterator it may read (\<open>None\<close>). With the default \<^verbatim>\<open>std::unordered_set\<close>, whose
  \<^verbatim>\<open>const_iterator\<close> does not convert to \<^verbatim>\<open>iterator\<close>, the return statement does not even
  compile. An iterator, where there is one, is a position in the iteration order.
\<close>

definition grow_only_set_begin :: "'a grow_only_set \<Rightarrow> nat option" where
  "grow_only_set_begin d = (let temporary = (0 :: nat) in None)"

definition grow_only_set_end :: "'a grow_only_set \<Rightarrow> nat option" where
  "grow_only_set_end d = (let temporary = length d in None)"

text \<open>
  \<^verbatim>\<open>void merge(const grow_only_set& other) { _data.insert(other.begin(), other.end()); }\<close>
  The range insert would take the elements of \<^verbatim>\<open>other\<close> between the two iterators one
  after the other. It gets its range from \<^verbatim>\<open>begin()\<close> and \<^verbatim>\<open>end()\<close> above, so no call of
  \<^verbatim>\<open>merge\<close> has a defined result.
\<close>

definition grow_only_set_merge :: "'a grow_only_set \<Rightarrow> 'a grow_only_set \<Rightarrow> 'a grow_only_set option" where
  "grow_only_set_merge d other =
     (case (grow_only_set_begin other, grow_only_set_end other) of
        (Some first_it, Some last_it) \<Rightarrow>
          Some (fold emplace (take (last_it - first_it) (drop first_it other)) d)
      | _ \<Rightarrow> None)"

text \<open>\<^verbatim>\<open>return std::find(_data.begin(), _data.end(), elem) != _data.end();\<close>\<close>

definition grow_only_set_query :: "'a grow_only_set \<Rightarrow> 'a \<Rightarrow> bool" where
  "grow_only_set_query d elem = (find (\<lambda>y. y = elem) d \<noteq> None)"

text \<open>
  \<^verbatim>\<open>std::includes(first1, last1, first2, last2)\<close> of the standard library, which walks two
  ranges it takes to be sorted by \<^verbatim>\<open><\<close>:
  \<^verbatim>\<open>for (; first2 != last2; ++first1) {\<close>
  \<^verbatim>\<open>  if (first1 == last1 || *first2 < *first1) return false;\<close>
  \<^verbatim>\<open>  if (!(*first1 < *first2)) ++first2;\<close>
  \<^verbatim>\<open>}\<close>
  \<^verbatim>\<open>return true;\<close>
\<close>

fun std_includes :: "'a::linorder list \<Rightarrow> 'a list \<Rightarrow> bool" where
  "std_includes r1 [] = True"
| "std_includes [] (y # r2) = False"
| "std_includes (x # r1) (y # r2) =
     (if y < x then False
      else if \<not> x < y then std_includes r1 r2
      else std_includes r1 (y # r2))"

text \<open>
  \<^verbatim>\<open>bool includes(const grow_only_set& otherset) const\<close>
  \<^verbatim>\<open>{ std::includes(_data.cbegin(), _data.cend(), otherset._data.cbegin(), otherset._data.cend()); }\<close>
  The body is an expression statement: the value of \<^verbatim>\<open>std::includes\<close> is computed and
  dropped, and control reaches the closing brace without a \<^verbatim>\<open>return\<close>. No value is handed
  to the caller (the behaviour of the call is undefined); \<open>None\<close> stands for that.
\<close>

definition grow_only_set_includes :: "'a::linorder grow_only_set \<Rightarrow> 'a grow_only_set \<Rightarrow> bool option" where
  "grow_only_set_includes d otherset = (let dropped = std_includes d otherset in None)"

text \<open>\<^verbatim>\<open>bool operator<=(const grow_only_set& other) const { return includes(other); }\<close>\<close>

definition grow_only_set_le :: "'a::linorder grow_only_set \<Rightarrow> 'a grow_only_set \<Rightarrow> bool option" where
  "grow_only_set_le d other = grow_only_set_includes d other"

subsection \<open>Two-phase set (\<^verbatim>\<open>crdt::two_phase_set<T, SetType>\<close>)\<close>

text \<open>Two grow-only sets, \<^verbatim>\<open>_add_set\<close> and \<^verbatim>\<open>_rem_set\<close>.\<close>

record 'a two_phase_set =
  add_set :: "'a grow_only_set"
  rem_set :: "'a grow_only_set"

text \<open>The implicit default constructor default-constructs both members.\<close>

definition two_phase_set_empty :: "'a two_phase_set" where
  "two_phase_set_empty = \<lparr>add_set = grow_only_set_empty, rem_set = grow_only_set_empty\<rparr>"

text \<open>\<^verbatim>\<open>void add(T&& elem) { _add_set.add(std::forward<T>(elem)); }\<close>: the argument
  is forwarded as an rvalue.\<close>

definition two_phase_set_add :: "'a \<Rightarrow> 'a two_phase_set \<Rightarrow> 'a two_phase_set" where
  "two_phase_set_add elem s = s\<lparr>add_set := grow_only_set_add elem (add_set s)\<rparr>"

text \<open>
  \<^verbatim>\<open>void remove(const T& elem) { if (_add_set.query(elem)) { _rem_set.add(elem); } }\<close>
  \<^verbatim>\<open>elem\<close> is a const lvalue and \<^verbatim>\<open>grow_only_set::add\<close> takes an rvalue reference, so the
  call \<^verbatim>\<open>_rem_set.add(elem)\<close> is ill-formed for every \<^verbatim>\<open>T\<close>. The member cannot be
  instantiated: no call of it has a result, whichever branch it would have taken.
\<close>

definition two_phase_set_remove :: "'a \<Rightarrow> 'a two_phase_set \<Rightarrow> 'a two_phase_set option" where
  "two_phase_set_remove elem s =
     (if binds_to_rvalue_reference Const_lvalue
      then Some (if grow_only_set_query (add_set s) elem
                 then s\<lparr>rem_set := grow_only_set_add elem (rem_set s)\<rparr>
                 else s)
      else None)"

text \<open>\<^verbatim>\<open>_add_set.merge(other._add_set); _rem_set.merge(other._rem_set);\<close>: two calls of the
  grow-only set's \<^verbatim>\<open>merge\<close>, one after the other.\<close>

definition two_phase_set_merge :: "'a two_phase_set \<Rightarrow> 'a two_phase_set \<Rightarrow> 'a two_phase_set option" where
  "two_phase_set_merge s other =
     (case grow_only_set_merge (add_set s) (add_set other) of
        None \<Rightarrow> None
      | Some adds \<Rightarrow>
          (case grow_only_set_merge (rem_set s) (rem_set other) of
             None \<Rightarrow> None
           | Some rems \<Rightarrow> Some (s\<lparr>add_set := adds, rem_set := rems\<rparr>)))"

text \<open>
  \<^verbatim>\<open>SetType value() const { // TODO }\<close>
  The body is empty: nothing is computed and no value is returned (\<open>None\<close>, as for
  \<^verbatim>\<open>includes\<close>). The class has no \<^verbatim>\<open>contains\<close> member.
\<close>

definition two_phase_set_value :: "'a two_phase_set \<Rightarrow> 'a list option" where
  "two_phase_set_value s = None"

subsection \<open>Facts about the grow-only counter\<close>

lemma std_max_eq_max: "std_max a b = max a b"
  by (auto simp: std_max_def max_def)

lemma merge_loop_length:
  "length (fold (\<lambda>i acc. acc[i := std_max (acc ! i) (other ! i)]) is p) = length p"
  by (induction "is" arbitrary: p) simp_all

lemma merge_loop_prefix:
  assumes "k \<le> length p"
  shows "fold (\<lambda>i acc. acc[i := std_max (acc ! i) (other ! i)]) [0..<k] p =
         map (\<lambda>i. if i < k then std_max (p ! i) (other ! i) else p ! i) [0..<length p]"
  using assms
proof (induction k)
  case 0
  show ?case by (simp add: map_nth)
next
  case (Suc k)
  then have IH: "fold (\<lambda>i acc. acc[i := std_max (acc ! i) (other ! i)]) [0..<k] p =
         map (\<lambda>i. if i < k then std_max (p ! i) (other ! i) else p ! i) [0..<length p]"
    and k: "k < length p" by simp_all
  show ?case
    by (rule nth_equalityI) (use k in \<open>auto simp: IH nth_list_update less_Suc_eq\<close>)
qed

lemma gcounter_merge_length [simp]: "length (gcounter_merge Nodes p other) = length p"
  by (simp add: gcounter_merge_def merge_loop_length)

lemma gcounter_merge_nth:
  assumes "length p = Nodes" and "i < Nodes"
  shows "gcounter_merge Nodes p other ! i = max (p ! i) (other ! i)"
proof -
  have "gcounter_merge Nodes p other =
        map (\<lambda>i. if i < Nodes then std_max (p ! i) (other ! i) else p ! i) [0..<length p]"
    unfolding gcounter_merge_def using assms by (simp only: merge_loop_prefix order_refl)
  with assms show ?thesis by (simp add: std_max_eq_max)
qed

lemma gcounter_value_sum_list: "gcounter_value p = sum_list p"
proof -
  have "foldl (+) a p = a + sum_list p" for a :: uint32_t
    by (induction p arbitrary: a) (simp_all add: add.assoc)
  then show ?thesis by (simp add: gcounter_value_def)
qed

lemma gcounter_le_False: "gcounter_le Nodes p other = False"
proof -
  have "fold (\<lambda>i acc. acc \<and> p ! i \<le> other ! i) is False = False" for "is"
    by (induction "is") simp_all
  then show ?thesis by (simp add: gcounter_le_def)
qed

lemma gcounter_merge_idem:
  "gcounter_shape Nodes a \<Longrightarrow> gcounter_merge Nodes a a = a"
  by (intro nth_equalityI) (simp_all add: gcounter_merge_nth gcounter_shape_def)

lemma gcounter_merge_commute:
  "gcounter_shape Nodes a \<Longrightarrow> gcounter_shape Nodes b \<Longrightarrow>
   gcounter_merge Nodes a b = gcounter_merge Nodes b a"
  by (intro nth_equalityI) (simp_all add: gcounter_merge_nth gcounter_shape_def max.commute)

lemma gcounter_merge_assoc:
  "gcounter_shape Nodes a \<Longrightarrow> gcounter_shape Nodes b \<Longrightarrow> gcounter_shape Nodes c \<Longrightarrow>
   gcounter_merge Nodes (gcounter_merge Nodes a b) c =
   gcounter_merge Nodes a (gcounter_merge Nodes b c)"
  by (intro nth_equalityI) (simp_all add: gcounter_merge_nth gcounter_shape_def max.assoc)

text \<open>\<open>k\<close> calls of \<^verbatim>\<open>increment(index)\<close> add \<open>k\<close> to the slot, in the slot type.\<close>

lemma gcounter_increment_funpow:
  assumes "index < Nodes" and "index < length p"
  shows "(gcounter_increment Nodes index ^^ k) p = p[index := p ! index + of_nat k]"
proof (induction k)
  case 0
  show ?case by simp
next
  case (Suc k)
  with assms show ?case
    by (simp add: gcounter_increment_def add_ac)
qed

lemma sum_list_zero_update:
  "i < Nodes \<Longrightarrow> sum_list ((replicate Nodes 0)[i := x]) = (x :: uint32_t)"
  by (simp add: upd_conv_take_nth_drop sum_list_replicate)

lemma gcounter_value_increments:
  assumes "i < Nodes"
  shows "gcounter_value ((gcounter_increment Nodes i ^^ k) (gcounter_zero Nodes)) = of_nat k"
  using assms
  by (simp add: gcounter_increment_funpow gcounter_zero_def gcounter_value_sum_list
      sum_list_zero_update)

subsection \<open>Facts about the positive-negative counter\<close>

lemma pncounter_merge_idem:
  "pncounter_shape Nodes a \<Longrightarrow> pncounter_merge Nodes a a = a"
  by (simp add: pncounter_merge_def pncounter_shape_def gcounter_merge_idem)

lemma pncounter_merge_commute:
  "pncounter_shape Nodes a \<Longrightarrow> pncounter_shape Nodes b \<Longrightarrow>
   pncounter_merge Nodes a b = pncounter_merge Nodes b a"
  by (cases a, cases b) (simp add: pncounter_merge_def pncounter_shape_def gcounter_merge_commute)

lemma pncounter_merge_assoc:
  "pncounter_shape Nodes a \<Longrightarrow> pncounter_shape Nodes b \<Longrightarrow> pncounter_shape Nodes c \<Longrightarrow>
   pncounter_merge Nodes (pncounter_merge Nodes a b) c =
   pncounter_merge Nodes a (pncounter_merge Nodes b c)"
  by (simp add: pncounter_merge_def pncounter_shape_def gcounter_merge_assoc)

subsection \<open>Facts about the sets\<close>

lemma set_emplace: "set (emplace x d) = insert x (set d)"
  by (auto simp: emplace_def)

lemma distinct_emplace: "distinct d \<Longrightarrow> distinct (emplace x d)"
  by (simp add: emplace_def)

lemma grow_only_set_query_iff: "grow_only_set_query d elem \<longleftrightarrow> elem \<in> set d"
  by (auto simp: grow_only_set_query_def find_None_iff)

text \<open>The members that cannot be instantiated, or that read through a dangling reference,
  yield no result on any input.\<close>

lemma grow_only_set_merge_None: "grow_only_set_merge d other = None"
  by (simp add: grow_only_set_merge_def grow_only_set_begin_def)

lemma two_phase_set_merge_None: "two_phase_set_merge s other = None"
  by (simp add: two_phase_set_merge_def grow_only_set_merge_None)

lemma two_phase_set_remove_None: "two_phase_set_remove elem s = None"
  by (simp add: two_phase_set_remove_def binds_to_rvalue_reference_def)

lemma pncounter_value_None: "pncounter_value c = None"
  by (simp add: pncounter_value_def gcounter_begin_def)

section \<open>The claims\<close>

text \<open>
  C1. The claim: the merge of every type is idempotent, commutative and associative. For
  \<^verbatim>\<open>gcounter\<close> and \<^verbatim>\<open>pncounter\<close> it is, on all arrays of the configured size, which include
  every reachable state. The merge of \<^verbatim>\<open>grow_only_set\<close>, and with it the merge of
  \<^verbatim>\<open>two_phase_set\<close>, reads the other set through \<^verbatim>\<open>begin()\<close> and \<^verbatim>\<open>end()\<close>, which hand over
  no iterator: it yields no merged set, for \<open>{1, 2}\<close> and \<open>{3, 1}\<close> as for any two sets,
  so none of the three laws holds of it. \<^verbatim>\<open>observe_remove_set\<close> is an empty class without
  a merge.
\<close>

theorem counter_merge_laws_set_merge_undefined:
  assumes "gcounter_shape Nodes a" and "gcounter_shape Nodes b" and "gcounter_shape Nodes c"
    and "pncounter_shape Nodes pa" and "pncounter_shape Nodes pb" and "pncounter_shape Nodes pc"
  shows
    "(gcounter_merge Nodes a a = a \<and>
      gcounter_merge Nodes a b = gcounter_merge Nodes b a \<and>
      gcounter_merge Nodes (gcounter_merge Nodes a b) c =
        gcounter_merge Nodes a (gcounter_merge Nodes b c)) \<and>
     (pncounter_merge Nodes pa pa = pa \<and>
      pncounter_merge Nodes pa pb = pncounter_merge Nodes pb pa \<and>
      pncounter_merge Nodes (pncounter_merge Nodes pa pb) pc =
        pncounter_merge Nodes pa (pncounter_merge Nodes pb pc)) \<and>
     grow_only_set_merge [1, 2] [3, 1 :: int] = None \<and>
     grow_only_set_merge s t = None \<and>
     two_phase_set_merge x y = None"
proof -
  note g = gcounter_merge_idem [OF assms(1)] gcounter_merge_commute [OF assms(1,2)]
    gcounter_merge_assoc [OF assms(1,2,3)]
  note p = pncounter_merge_idem [OF assms(4)] pncounter_merge_commute [OF assms(4,5)]
    pncounter_merge_assoc [OF assms(4,5,6)]
  show ?thesis
    by (intro conjI g p grow_only_set_merge_None two_phase_set_merge_None)
qed

text \<open>The counter laws at three counters of size 3.\<close>

theorem counter_merge_laws_set_merge_undefined_witness:
  "gcounter_shape 3 [1, 0, 2] \<and> gcounter_shape 3 [0, 3, 1] \<and> gcounter_shape 3 [5, 5, 0] \<and>
   pncounter_shape 3 \<lparr>increment_counter = [1, 0, 2], decrement_counter = [0, 1, 0]\<rparr> \<and>
   pncounter_shape 3 \<lparr>increment_counter = [0, 3, 1], decrement_counter = [2, 0, 0]\<rparr> \<and>
   pncounter_shape 3 \<lparr>increment_counter = [5, 5, 0], decrement_counter = [0, 0, 7]\<rparr> \<and>
   gcounter_merge 3 [1, 0, 2] [0, 3, 1] = gcounter_merge 3 [0, 3, 1] [1, 0, 2] \<and>
   gcounter_merge 3 (gcounter_merge 3 [1, 0, 2] [0, 3, 1]) [5, 5, 0] =
     gcounter_merge 3 [1, 0, 2] (gcounter_merge 3 [0, 3, 1] [5, 5, 0]) \<and>
   grow_only_set_merge [1, 2] [3, 1 :: int] = None"
proof -
  have shapes:
    "gcounter_shape 3 [1, 0, 2]" "gcounter_shape 3 [0, 3, 1]" "gcounter_shape 3 [5, 5, 0]"
    "pncounter_shape 3 \<lparr>increment_counter = [1, 0, 2], decrement_counter = [0, 1, 0]\<rparr>"
    "pncounter_shape 3 \<lparr>increment_counter = [0, 3, 1], decrement_counter = [2, 0, 0]\<rparr>"
    "pncounter_shape 3 \<lparr>increment_counter = [5, 5, 0], decrement_counter = [0, 0, 7]\<rparr>"
    by (simp_all add: gcounter_shape_def pncounter_shape_def)
  show ?thesis
    using counter_merge_laws_set_merge_undefined
        [OF shapes, where s = "[] :: int list" and t = "[]"
          and x = "two_phase_set_empty :: int two_phase_set" and y = two_phase_set_empty]
      shapes
    by blast
qed

text \<open>
  C2. The claim: \<^verbatim>\<open>operator<=\<close> of the grow-only counter is true exactly when every slot of
  the receiver is at most the slot of the other counter, so it is true on two all-zero
  counters. The source seeds its accumulator with \<^verbatim>\<open>false\<close> and only ever conjoins to it:
  on two all-zero counters of size 3 it returns \<^verbatim>\<open>false\<close> (as it does on every input, by
  \<open>gcounter_le_False\<close>).
\<close>

theorem gcounter_le_zero_counters:
  "gcounter_zero 3 = [0, 0, 0] \<and> gcounter_le 3 [0, 0, 0] [0, 0, 0] = False"
  by (simp add: gcounter_le_False gcounter_zero_def numeral_3_eq_3)

text \<open>
  C3. The claim: \<^verbatim>\<open>increment(index)\<close> with \<open>index \<ge> N\<close> fails with InvalidIndex and leaves
  the state unchanged. In the source the call \<^verbatim>\<open>increment(3)\<close> on a counter of size 3
  completes normally: no failure is reported.
\<close>

theorem gcounter_increment_out_of_range_counterexample:
  "gcounter_increment_call 3 3 [0, 0, 0] = Inr [0, 0, 0] \<and>
   gcounter_increment_call 3 3 [0, 0, 0] \<noteq> Inl InvalidIndex"
  by (simp add: gcounter_increment_call_def gcounter_increment_def)

text \<open>
  C3, as amended: \<^verbatim>\<open>increment(index)\<close> with \<open>index \<ge> N\<close> is a silent no-op; it completes
  normally, reports nothing and leaves the counter unchanged.
\<close>

theorem gcounter_increment_out_of_range_noop:
  "Nodes \<le> index \<Longrightarrow> gcounter_increment_call Nodes index p = Inr p"
  by (simp add: gcounter_increment_call_def gcounter_increment_def)

theorem gcounter_increment_out_of_range_noop_witness:
  "(3::nat) \<le> 3 \<and> gcounter_increment_call 3 3 [4, 5, 6] = Inr [4, 5, 6]"
  using gcounter_increment_out_of_range_noop [of 3 3 "[4, 5, 6]"] by simp

text \<open>
  C4. The claim: \<^verbatim>\<open>includes\<close> and \<^verbatim>\<open>operator<=\<close> of the grow-only set return whether every
  element of the receiver is in the other set. On the receiver \<open>{1}\<close> and the other set
  \<open>{1, 2}\<close>, where that is the case, the source returns no value at all; and the value
  it computes and drops, \<^verbatim>\<open>std::includes\<close> over the receiver's range first, is \<^verbatim>\<open>false\<close>.
\<close>

theorem grow_only_set_includes_returns_nothing:
  "grow_only_set_includes [1] [1, 2 :: int] = None \<and>
   grow_only_set_le [1] [1, 2 :: int] = None \<and>
   std_includes [1] [1, 2 :: int] = False \<and>
   set [1 :: int] \<subseteq> set [1, 2]"
  by (simp add: grow_only_set_includes_def grow_only_set_le_def)

text \<open>
  C5. The claim: \<open>a \<le> merge(a, b)\<close> and \<open>b \<le> merge(a, b)\<close> under each type's own
  \<^verbatim>\<open>operator<=\<close>. For \<open>a = b = [0, 0, 0]\<close> the counter's operator answers \<^verbatim>\<open>false\<close> on
  \<open>a\<close> and the merge; for \<open>a = b = {1}\<close> the set's merge yields no set and the set's
  operator returns no value.
\<close>

theorem le_of_merge_fails:
  "gcounter_merge 3 [0, 0, 0] [0, 0, 0] = [0, 0, 0] \<and>
   gcounter_le 3 [0, 0, 0] (gcounter_merge 3 [0, 0, 0] [0, 0, 0]) = False \<and>
   Option.bind (grow_only_set_merge [1 :: int] [1]) (grow_only_set_le [1]) = None \<and>
   grow_only_set_le [1 :: int] [1] = None"
proof -
  have "gcounter_merge 3 [0, 0, 0] [0, 0, 0] = [0, 0, 0]"
    by code_simp
  then show ?thesis
    by (simp add: gcounter_le_False grow_only_set_le_def grow_only_set_includes_def
        grow_only_set_merge_None)
qed

text \<open>
  C6. The merge of two counters of the same size \<open>N\<close> is again a counter of size \<open>N\<close>
  whose slot \<open>i\<close> is the maximum of the two slots \<open>i\<close>; merging \<open>[1, 0, 2]\<close> and
  \<open>[0, 3, 1]\<close> gives \<open>[1, 3, 2]\<close>, whose value is 6.
\<close>

theorem gcounter_merge_slotwise_max:
  assumes "gcounter_shape Nodes p" and "gcounter_shape Nodes other"
  shows "gcounter_shape Nodes (gcounter_merge Nodes p other) \<and>
         (\<forall>i<Nodes. gcounter_merge Nodes p other ! i = max (p ! i) (other ! i)) \<and>
         gcounter_merge 3 [1, 0, 2] [0, 3, 1] = [1, 3, 2] \<and>
         gcounter_value (gcounter_merge 3 [1, 0, 2] [0, 3, 1]) = 6"
proof -
  have ex: "gcounter_merge 3 [1, 0, 2] [0, 3, 1] = [1, 3, 2]"
    by code_simp
  have "gcounter_value [1, 3, 2] = 6"
    by (simp add: gcounter_value_def)
  with ex assms show ?thesis
    by (simp add: gcounter_shape_def gcounter_merge_nth)
qed

theorem gcounter_merge_slotwise_max_witness:
  "gcounter_shape 2 [7, 4] \<and> gcounter_shape 2 [3, 9] \<and>
   gcounter_merge 2 [7, 4] [3, 9] ! 0 = 7 \<and> gcounter_merge 2 [7, 4] [3, 9] ! 1 = 9"
proof -
  have shapes: "gcounter_shape 2 [7, 4]" "gcounter_shape 2 [3, 9]"
    by (simp_all add: gcounter_shape_def)
  from gcounter_merge_slotwise_max [OF shapes]
  have "\<forall>i<2. gcounter_merge 2 [7, 4] [3, 9] ! i = max ([7, 4] ! i) ([3, 9] ! i)"
    by blast
  then have "gcounter_merge 2 [7, 4] [3, 9] ! 0 = max ([7, 4] ! 0) ([3, 9] ! 0)"
    and "gcounter_merge 2 [7, 4] [3, 9] ! 1 = max ([7, 4] ! 1) ([3, 9] ! 1)"
    by simp_all
  with shapes show ?thesis by simp
qed

text \<open>
  C7. The claim: after \<^verbatim>\<open>add(x); remove(x); add(x)\<close> the element is logically absent, and
  \<^verbatim>\<open>value()\<close> returns the added elements without the removed ones. In the source
  \<^verbatim>\<open>value()\<close> is an empty body that returns nothing, on the set after \<^verbatim>\<open>add("x")\<close> as on
  every set; the class has no \<^verbatim>\<open>contains\<close>; and \<^verbatim>\<open>remove\<close> cannot be instantiated, so the
  sequence of the claim does not get past its second call.
\<close>

theorem two_phase_set_value_unimplemented:
  "two_phase_set_value s = None \<and>
   two_phase_set_add ''x'' two_phase_set_empty = \<lparr>add_set = [''x''], rem_set = []\<rparr> \<and>
   two_phase_set_value (two_phase_set_add ''x'' two_phase_set_empty) = None \<and>
   two_phase_set_remove ''x'' (two_phase_set_add ''x'' two_phase_set_empty) = None"
  by (simp add: two_phase_set_add_def two_phase_set_empty_def two_phase_set_value_def
      two_phase_set_remove_None grow_only_set_add_def grow_only_set_empty_def emplace_def)

text \<open>
  C8. The claim: the value of a positive-negative counter is the increment counter's value
  minus the decrement counter's, and is 2 after three \<^verbatim>\<open>increment(0)\<close> and one
  \<^verbatim>\<open>decrement(0)\<close> on a fresh counter. The four calls leave the inner counters at
  \<open>[3, 0, 0]\<close> and \<open>[1, 0, 0]\<close>, but \<^verbatim>\<open>value()\<close> reads them through \<^verbatim>\<open>begin()\<close> and
  \<^verbatim>\<open>end()\<close>, which \<^verbatim>\<open>gcounter\<close> does not have: it yields no value, there as on every counter.
\<close>

theorem pncounter_value_yields_nothing:
  "pncounter_decrement 3 0 ((pncounter_increment 3 0 ^^ 3) (pncounter_zero 3)) =
     \<lparr>increment_counter = [3, 0, 0], decrement_counter = [1, 0, 0]\<rparr> \<and>
   pncounter_value (pncounter_decrement 3 0
     ((pncounter_increment 3 0 ^^ 3) (pncounter_zero 3))) = None \<and>
   pncounter_value c = None"
  by (simp add: pncounter_value_None pncounter_decrement_def pncounter_increment_def
      pncounter_zero_def gcounter_zero_def gcounter_increment_def numeral_3_eq_3)

text \<open>
  C9. The claim: on a fresh counter of size 3, whose slots are all zero, \<open>k\<close> calls of
  \<^verbatim>\<open>increment(i)\<close> with a valid \<open>i\<close> give \<^verbatim>\<open>value() == k\<close>. After \<open>2^32 = 4294967296\<close>
  calls of \<^verbatim>\<open>increment(0)\<close> on the all-zero counter the value is 0.
\<close>

theorem gcounter_value_after_increments_counterexample:
  "gcounter_value ((gcounter_increment 3 0 ^^ 4294967296) (gcounter_zero 3)) = 0 \<and>
   unat (gcounter_value ((gcounter_increment 3 0 ^^ 4294967296) (gcounter_zero 3))) \<noteq>
     4294967296"
proof -
  have "gcounter_value ((gcounter_increment 3 0 ^^ 4294967296) (gcounter_zero 3)) =
        of_nat 4294967296"
    by (rule gcounter_value_increments) simp
  then show ?thesis by simp
qed

text \<open>
  C9, as amended: a value-initialised counter has every slot zero, and \<open>k\<close> calls of
  \<^verbatim>\<open>increment(i)\<close> with a valid \<open>i\<close> on it give the value \<open>k mod 2^32\<close>, which is \<open>k\<close>
  for every \<open>k < 2^32\<close>. This holds for every size, 3 among them.
\<close>

theorem gcounter_value_after_increments:
  assumes "i < Nodes"
  shows "gcounter_zero Nodes = replicate Nodes 0 \<and>
         unat (gcounter_value ((gcounter_increment Nodes i ^^ k) (gcounter_zero Nodes))) =
           k mod 2 ^ 32 \<and>
         (k < 2 ^ 32 \<longrightarrow>
           unat (gcounter_value ((gcounter_increment Nodes i ^^ k) (gcounter_zero Nodes))) = k)"
proof -
  have "unat (gcounter_value ((gcounter_increment Nodes i ^^ k) (gcounter_zero Nodes))) =
        k mod 2 ^ 32"
    using assms by (simp only: gcounter_value_increments) (simp add: unat_of_nat)
  then show ?thesis by (simp add: gcounter_zero_def)
qed

theorem gcounter_value_after_increments_witness:
  "(1::nat) < 3 \<and> (5::nat) < 2 ^ 32 \<and>
   unat (gcounter_value ((gcounter_increment 3 1 ^^ 5) (gcounter_zero 3))) = 5"
proof -
  have i: "(1::nat) < 3" and k: "(5::nat) < 2 ^ 32" by simp_all
  from gcounter_value_after_increments [OF i, of 5] k
  have "unat (gcounter_value ((gcounter_increment 3 1 ^^ 5) (gcounter_zero 3))) = 5"
    by blast
  with i k show ?thesis by simp
qed

text \<open>
  C10. With 32-bit slots, \<^verbatim>\<open>increment(index)\<close> with a valid index adds 1 to the slot modulo
  \<open>2^32\<close>: a slot holding \<open>2^32 - 1 = 4294967295\<close> becomes 0, any other slot grows
  strictly, and on \<open>[4294967295, 0, 0]\<close> the counter's value goes down across the call.
\<close>

theorem gcounter_increment_wraps:
  assumes "index < Nodes" and "gcounter_shape Nodes p"
  shows "unat (gcounter_increment Nodes index p ! index) = (unat (p ! index) + 1) mod 2 ^ 32 \<and>
         (p ! index = 4294967295 \<longrightarrow> gcounter_increment Nodes index p ! index = 0) \<and>
         (p ! index \<noteq> 4294967295 \<longrightarrow> p ! index < gcounter_increment Nodes index p ! index) \<and>
         gcounter_value (gcounter_increment 3 0 [4294967295, 0, 0]) <
           gcounter_value [4294967295, 0, 0]"
proof -
  have slot: "gcounter_increment Nodes index p ! index = p ! index + 1"
    using assms by (simp add: gcounter_increment_def gcounter_shape_def)
  have wrap: "unat (p ! index + 1) = (unat (p ! index) + 1) mod 2 ^ 32"
    by (simp add: unat_word_ariths)
  have grow: "p ! index < p ! index + 1" if "p ! index \<noteq> 4294967295"
  proof -
    have "unat (p ! index) \<noteq> unat (4294967295 :: uint32_t)"
      using that by (simp only: word_unat_eq_iff [symmetric] not_False_eq_True)
    moreover have "unat (p ! index) < 2 ^ 32"
      using unsigned_less [of "p ! index", where ?'a = nat] by simp
    ultimately have "unat (p ! index) + 1 < 2 ^ 32"
      by simp
    then have "unat (p ! index + 1) = unat (p ! index) + 1"
      by (simp add: unat_word_ariths)
    then show ?thesis
      by (simp add: word_less_nat_alt)
  qed
  have ex: "gcounter_value (gcounter_increment 3 0 [4294967295, 0, 0]) <
           gcounter_value [4294967295, 0, 0]"
    by (simp add: gcounter_value_def gcounter_increment_def)
  show ?thesis
    using wrap grow ex by (simp add: slot)
qed

theorem gcounter_increment_wraps_witness:
  "(0::nat) < 3 \<and> gcounter_shape 3 [4294967295, 0, 0] \<and>
   gcounter_increment 3 0 [4294967295, 0, 0] ! 0 = 0 \<and>
   unat (gcounter_increment 3 0 [4294967295, 0, 0] ! 0) = (unat ([4294967295, 0, 0 :: uint32_t] ! 0) + 1) mod 2 ^ 32"
proof -
  have i: "(0::nat) < 3" and s: "gcounter_shape 3 [4294967295, 0, 0]"
    by (simp_all add: gcounter_shape_def)
  from gcounter_increment_wraps [OF i s]
  have "unat (gcounter_increment 3 0 [4294967295, 0, 0] ! 0) =
          (unat ([4294967295, 0, 0 :: uint32_t] ! 0) + 1) mod 2 ^ 32"
    and "[4294967295, 0, 0 :: uint32_t] ! 0 = 4294967295 \<longrightarrow>
          gcounter_increment 3 0 [4294967295, 0, 0] ! 0 = 0"
    by blast+
  with i s show ?thesis by simp
qed

end
